theory Spec2Isabelle
  imports Complex_Main "HOL-Library.Word"
begin

section \<open>Data model of \<^verbatim>\<open>main.cpp\<close>\<close>

text \<open>
  The dashboard keeps one struct type, \<^verbatim>\<open>AirQualityData\<close>, for mock and for live series,
  and four globals: the currently selected mock data and the three live histories.

  Conventions of the embedding.
  \<^item> \<^verbatim>\<open>int\<close> values (samples, \<^verbatim>\<open>aqi\<close>, canvas sizes) are \<open>int\<close>; every value the
    modelled code computes on them stays far inside 32 bits for 32-bit samples of the sizes the
    program produces, so no wrap-around is written out for them.
  \<^item> \<^verbatim>\<open>unsigned int\<close> (the hash and the seed of the mock generator) is \<open>32 word\<close>: its
    arithmetic wraps.
  \<^item> \<^verbatim>\<open>double\<close> values are the reals they denote. The arithmetic of the chart renderer
    is binary64 arithmetic: each operation there is the exact operation followed by rounding
    to the nearest binary64 value, ties to even (section ``Binary64 arithmetic''). The two
    summary readings \<open>pm25\<close> and \<open>pm10\<close> of the data generators are kept as the exact
    products.
  \<^item> A scalar member of a struct that was declared with \<^verbatim>\<open>AirQualityData data;\<close> holds no
    value until it is assigned. The members are therefore options: \<open>None\<close> is a member that
    was never assigned (or a null pointer), \<open>Some v\<close> one that holds \<open>v\<close>.
\<close>

record AirQualityData =
  city :: "string option"
  aqi :: "int option"
  status :: "string option"
  pm25 :: "real option"
  pm10 :: "real option"
  history :: "int list"

text \<open>\<^verbatim>\<open>AirQualityData data;\<close>: the vector is empty, the scalars are not assigned.\<close>

definition declared :: AirQualityData where
  "declared = \<lparr>city = None, aqi = None, status = None, pm25 = None, pm10 = None, history = []\<rparr>"

record globals =
  current_aqi_data :: AirQualityData
  history_cpu :: "int list"
  history_mem :: "int list"
  history_net :: "int list"
  live_tick :: int

text \<open>
  The globals at program start: \<^verbatim>\<open>current_aqi_data\<close> is zero-initialised (null pointers, zero
  numbers, empty vector), each live history is \<^verbatim>\<open>std::vector<int>(24, 0)\<close>.
\<close>

definition initial_globals :: globals where
  "initial_globals =
     \<lparr>current_aqi_data =
        \<lparr>city = None, aqi = Some 0, status = None, pm25 = Some 0, pm10 = Some 0, history = []\<rparr>,
      history_cpu = replicate 24 0,
      history_mem = replicate 24 0,
      history_net = replicate 24 0,
      live_tick = 0\<rparr>"

section \<open>Live samplers and the tick handler\<close>

text \<open>C's \<^verbatim>\<open>%\<close> on \<^verbatim>\<open>int\<close>: the remainder has the sign of the dividend.\<close>

definition c_rem :: "int \<Rightarrow> int \<Rightarrow> int" where
  "c_rem a b = sgn a * (\<bar>a\<bar> mod \<bar>b\<bar>)"

text \<open>The cast \<^verbatim>\<open>(int)d\<close> of a double: truncation towards zero.\<close>

definition int_of_double :: "real \<Rightarrow> int" where
  "int_of_double d = (if 0 \<le> d then \<lfloor>d\<rfloor> else \<lceil>d\<rceil>)"

text \<open>
  The samplers of the \<^verbatim>\<open>#else\<close> branch (no \<^verbatim>\<open>_WIN32\<close>). \<^verbatim>\<open>rand()\<close> belongs to the C
  library: the value it returns at the call is the argument \<open>r\<close>; the C standard promises
  \<open>0 \<le> r \<le> RAND_MAX\<close>. \<^verbatim>\<open>GetMemoryUsage\<close> calls nothing.
\<close>

definition GetCPULoad :: "int \<Rightarrow> real" where
  "GetCPULoad r = real_of_int (c_rem r 100)"

definition GetMemoryUsage :: real where
  "GetMemoryUsage = 50.0"

definition GetNetworkUsage :: "int \<Rightarrow> real" where
  "GetNetworkUsage r = real_of_int (c_rem r 100)"

text \<open>
  \<^verbatim>\<open>v.erase(v.begin())\<close> on a non-empty vector and \<^verbatim>\<open>v.push_back(x)\<close>. The three update
  blocks of \<^verbatim>\<open>on_live_tick\<close> are the same two statements on three vectors; \<open>update_history\<close>
  is that block.
\<close>

definition erase_begin :: "int list \<Rightarrow> int list" where
  "erase_begin v = tl v"

definition push_back :: "int list \<Rightarrow> int \<Rightarrow> int list" where
  "push_back v x = v @ [x]"

definition update_history :: "int list \<Rightarrow> int \<Rightarrow> int list" where
  "update_history h x = push_back (if length h \<ge> 24 then erase_begin h else h) x"

text \<open>
  \<^verbatim>\<open>on_live_tick\<close>: the three doubles are what \<^verbatim>\<open>GetCPULoad()\<close>, \<^verbatim>\<open>GetMemoryUsage()\<close> and
  \<^verbatim>\<open>GetNetworkUsage()\<close> returned at this tick (on any platform). The redraw requests to the
  toolkit are not part of the state.
\<close>

definition on_live_tick :: "globals \<Rightarrow> real \<Rightarrow> real \<Rightarrow> real \<Rightarrow> globals" where
  "on_live_tick g cpu_load mem_usage net_usage =
     (let g = g\<lparr>live_tick := live_tick g + 1\<rparr>;
          cpu = int_of_double cpu_load;
          g = g\<lparr>history_cpu := update_history (history_cpu g) cpu\<rparr>;
          mem = int_of_double mem_usage;
          g = g\<lparr>history_mem := update_history (history_mem g) mem\<rparr>;
          net = int_of_double net_usage;
          g = g\<lparr>history_net := update_history (history_net g) net\<rparr>
      in g)"

text \<open>The tick on a platform without \<^verbatim>\<open>_WIN32\<close>: \<open>r1\<close> and \<open>r2\<close> are the two results of
  \<^verbatim>\<open>rand()\<close>, in call order.\<close>

definition on_live_tick_fallback :: "globals \<Rightarrow> int \<Rightarrow> int \<Rightarrow> globals" where
  "on_live_tick_fallback g r1 r2 =
     on_live_tick g (GetCPULoad r1) GetMemoryUsage (GetNetworkUsage r2)"

text \<open>Any number of ticks, each with the three readings the samplers gave.\<close>

fun run_ticks :: "globals \<Rightarrow> (real \<times> real \<times> real) list \<Rightarrow> globals" where
  "run_ticks g [] = g"
| "run_ticks g ((c, m, n) # ticks) = run_ticks (on_live_tick g c m n) ticks"

section \<open>Mock data generator\<close>

text \<open>
  The value that \<^verbatim>\<open>*p\<close> adds in \<^verbatim>\<open>hash = hash * 31 + *p\<close>: the \<^verbatim>\<open>char\<close> is promoted to
  \<^verbatim>\<open>int\<close> and converted to \<^verbatim>\<open>unsigned int\<close>. Whether plain \<^verbatim>\<open>char\<close> is signed is the
  platform's choice (\<open>sc\<close>); for a byte below 128 both choices agree.
\<close>

definition char_value :: "bool \<Rightarrow> char \<Rightarrow> 32 word" where
  "char_value sc c =
     (if sc \<and> (128 :: nat) \<le> of_char c then word_of_nat (of_char c) - 256
      else word_of_nat (of_char c))"

text \<open>\<^verbatim>\<open>for (const char *p = city; *p; p++) hash = hash * 31 + *p;\<close> The string ends at its
  first NUL byte.\<close>

fun hash_loop :: "bool \<Rightarrow> 32 word \<Rightarrow> string \<Rightarrow> 32 word" where
  "hash_loop sc hash [] = hash"
| "hash_loop sc hash (p # ps) =
     (if p = CHR 0x00 then hash else hash_loop sc (hash * 31 + char_value sc p) ps)"

text \<open>The lambda \<^verbatim>\<open>my_rand\<close>: it updates the captured seed and returns
  \<^verbatim>\<open>(seed / 65536) % 32768\<close>; here it returns the result and the new seed.\<close>

definition my_rand :: "32 word \<Rightarrow> 32 word \<times> 32 word" where
  "my_rand seed = (let seed = seed * 1103515245 + 12345 in ((seed div 65536) mod 32768, seed))"

text \<open>The status labels, as the bytes of the source's UTF-8 literals.\<close>

definition status_good :: string where
  "status_good = ''Good '' @ [CHR 0xF0, CHR 0x9F, CHR 0x9F, CHR 0xA2]"

definition status_satisfactory :: string where
  "status_satisfactory = ''Satisfactory '' @ [CHR 0xF0, CHR 0x9F, CHR 0x9F, CHR 0xA1]"

definition status_moderate :: string where
  "status_moderate = ''Moderate '' @ [CHR 0xF0, CHR 0x9F, CHR 0x9F, CHR 0xA0]"

definition status_poor :: string where
  "status_poor = ''Poor '' @ [CHR 0xF0, CHR 0x9F, CHR 0x94, CHR 0xB4]"

definition status_very_bad :: string where
  "status_very_bad = ''Very Bad '' @
     [CHR 0xF0, CHR 0x9F, CHR 0x94, CHR 0xB4, CHR 0xF0, CHR 0x9F, CHR 0x94, CHR 0xB4,
      CHR 0xF0, CHR 0x9F, CHR 0x94, CHR 0xB4]"

text \<open>The \<^verbatim>\<open>if\<close> chain of \<^verbatim>\<open>get_mock_data\<close> that picks the status from \<^verbatim>\<open>data.aqi\<close>.\<close>

definition aqi_status :: "int \<Rightarrow> string" where
  "aqi_status a =
     (if a \<le> 50 then status_good
      else if a \<le> 100 then status_satisfactory
      else if a \<le> 200 then status_moderate
      else if a \<le> 300 then status_poor
      else status_very_bad)"

text \<open>
  The history loop, \<^verbatim>\<open>for (int i = 0; i < 24; i++)\<close>, with its state: the seed, \<^verbatim>\<open>current\<close>
  and the vector. \<^verbatim>\<open>(my_rand() % 41) - 20\<close> is computed in \<^verbatim>\<open>unsigned int\<close> (it wraps below
  20) and converted to \<^verbatim>\<open>int\<close>; \<^verbatim>\<open>insert(begin(), val)\<close> puts \<open>val\<close> in front.
\<close>

function history_loop :: "int \<Rightarrow> 32 word \<Rightarrow> int \<Rightarrow> int list \<Rightarrow> int list" where
  "history_loop i seed current hist =
     (if i < 24 then
        (let (r, seed) = my_rand seed;
             fluctuation = sint (r mod 41 - 20);
             val = current + fluctuation;
             val = (if val < 0 then 0 else val)
         in history_loop (i + 1) seed val (val # hist))
      else hist)"
  by pat_completeness auto
termination
  by (relation "measure (\<lambda>(i, seed, current, hist). nat (24 - i))") auto

declare history_loop.simps [simp del]

definition get_mock_data :: "bool \<Rightarrow> string \<Rightarrow> AirQualityData" where
  "get_mock_data sc name =
     (let data = declared;
          data = data\<lparr>city := Some name\<rparr>;
          hash = hash_loop sc 0 name;
          seed = hash;
          a = sint (hash mod 300 + 50);
          data = data\<lparr>aqi := Some a\<rparr>;
          data = data\<lparr>status := Some (aqi_status a)\<rparr>;
          data = data\<lparr>pm25 := Some (real_of_int a * 0.6)\<rparr>;
          data = data\<lparr>pm10 := Some (real_of_int a * 1.2)\<rparr>;
          data = data\<lparr>history := []\<rparr>;
          current = a
      in data\<lparr>history := history_loop 0 seed current (history data)\<rparr>)"

text \<open>
  \<^verbatim>\<open>on_fetch_aqi_clicked\<close>, as far as the program's state goes: with the dropdown and the
  result box present and \<open>name\<close> the selected string, \<^verbatim>\<open>current_aqi_data\<close> becomes the mock
  data of \<open>name\<close>; \<open>None\<close> is the early return when one of the two widgets is missing.
  The label texts it sets are copies of the fields.
\<close>

definition on_fetch_aqi_clicked :: "bool \<Rightarrow> globals \<Rightarrow> string option \<Rightarrow> globals" where
  "on_fetch_aqi_clicked sc g selected =
     (case selected of
        None \<Rightarrow> g
      | Some name \<Rightarrow> g\<lparr>current_aqi_data := get_mock_data sc name\<rparr>)"

section \<open>Live data\<close>

text \<open>\<^verbatim>\<open>strstr(h, n) != NULL\<close>: \<open>n\<close> occurs in \<open>h\<close>.\<close>

fun strstr :: "string \<Rightarrow> string \<Rightarrow> bool" where
  "strstr [] n = (n = [])"
| "strstr (c # cs) n = (take (length n) (c # cs) = n \<or> strstr cs n)"

definition get_live_data :: "globals \<Rightarrow> string \<Rightarrow> AirQualityData" where
  "get_live_data g type =
     (let data = declared;
          data = data\<lparr>city := Some type\<rparr>;
          data = data\<lparr>status := Some ''Live''\<rparr>;
          (h, a) =
            (if strstr type ''CPU'' then
               (history_cpu g, if history_cpu g = [] then 0 else last (history_cpu g))
             else if strstr type ''Mem'' then
               (history_mem g, if history_mem g = [] then 0 else last (history_mem g))
             else
               (history_net g, if history_net g = [] then 0 else last (history_net g)));
          data = data\<lparr>history := h, aqi := Some a\<rparr>;
          data = data\<lparr>pm25 := Some (real_of_int a * 0.5)\<rparr>;
          data = data\<lparr>pm10 := Some (real_of_int a * 1.1)\<rparr>
      in data)"

section \<open>Binary64 arithmetic\<close>

text \<open>
  The renderer computes in \<^verbatim>\<open>double\<close>, the binary64 format of IEEE 754, in the default
  rounding mode: the result of an operation is the exact result rounded to the nearest
  value with a 53-bit significand, a tie going to the value with the even significand.
  The values of the renderer are far inside the normal range (no overflow, no subnormal
  result), and each operation is rounded on its own (no extended precision, no fused
  multiply-add), as with the SSE2 arithmetic of an x86-64 build.
\<close>

text \<open>The number of binary digits of \<open>n\<close>.\<close>

fun bit_length :: "nat \<Rightarrow> nat" where
  "bit_length n = (if n = 0 then 0 else Suc (bit_length (n div 2)))"

declare bit_length.simps [simp del]

definition pow2 :: "int \<Rightarrow> real" where
  "pow2 e = (if 0 \<le> e then 2 ^ nat e else 1 / 2 ^ nat (- e))"

text \<open>The binary exponent of \<open>x > 0\<close>: the \<open>e\<close> with \<open>2\<^sup>e \<le> x < 2\<^sup>e\<^sup>+\<^sup>1\<close>.\<close>

definition exponent :: "real \<Rightarrow> int" where
  "exponent x =
     (if 1 \<le> x then int (bit_length (nat \<lfloor>x\<rfloor>)) - 1
      else - int (bit_length (nat (\<lceil>1 / x\<rceil> - 1))))"

text \<open>Rounding to the nearest integer, a tie to the even one.\<close>

definition round_half_even :: "real \<Rightarrow> int" where
  "round_half_even z =
     (let f = \<lfloor>z\<rfloor>
      in if z - real_of_int f < 1 / 2 then f
         else if 1 / 2 < z - real_of_int f then f + 1
         else if even f then f else f + 1)"

text \<open>
  Rounding a real to binary64: with \<open>e\<close> the exponent of \<open>\<bar>x\<bar>\<close>, the values of the format
  near \<open>x\<close> are the integer multiples of \<open>2\<^sup>e\<^sup>-\<^sup>5\<^sup>2\<close>.
\<close>

definition binary64 :: "real \<Rightarrow> real" where
  "binary64 x =
     (if x = 0 then 0
      else (let e = exponent \<bar>x\<bar> - 52
            in real_of_int (round_half_even (x / pow2 e)) * pow2 e))"

text \<open>
  The four operations on \<^verbatim>\<open>double\<close>. An \<^verbatim>\<open>int\<close> or \<^verbatim>\<open>size_t\<close> operand is converted
  exactly (it is far below \<open>2\<^sup>5\<^sup>3\<close>), and the divisor is not 0 where the renderer divides
  (the one place where it can be is the error of \<open>draw_chart\<close> below). The sign of a zero
  is not kept: no comparison of the renderer depends on it.
\<close>

definition double_add :: "real \<Rightarrow> real \<Rightarrow> real" where
  "double_add a b = binary64 (a + b)"

definition double_sub :: "real \<Rightarrow> real \<Rightarrow> real" where
  "double_sub a b = binary64 (a - b)"

definition double_mul :: "real \<Rightarrow> real \<Rightarrow> real" where
  "double_mul a b = binary64 (a * b)"

definition double_div :: "real \<Rightarrow> real \<Rightarrow> real" where
  "double_div a b = binary64 (a / b)"

section \<open>The chart renderer\<close>

text \<open>
  The data that \<^verbatim>\<open>on_draw_chart\<close> and the motion callbacks keep on a drawing area with
  \<^verbatim>\<open>g_object_set_data\<close>: a key that was never set reads as \<^verbatim>\<open>NULL\<close> (\<open>None\<close>, \<open>False\<close>).
  \<open>hover_x\<close> is the pointer's x as the renderer reads it back, an \<^verbatim>\<open>int\<close>.
\<close>

record chart_area =
  city_name :: "string option"
  is_live :: bool
  live_type :: "string option"
  is_hovering :: bool
  hover_x :: int

text \<open>
  The renderer's effect is the sequence of cairo calls it makes, one constructor per call
  (the context argument is left out; the linear pattern is the only pattern, so
  \<open>cairo_set_source\<close> and the colour stops need no handle).
\<close>

datatype cairo_font_slant_t = CAIRO_FONT_SLANT_NORMAL

datatype cairo_font_weight_t = CAIRO_FONT_WEIGHT_NORMAL | CAIRO_FONT_WEIGHT_BOLD

datatype cairo_cmd =
    cairo_set_source_rgb real real real
  | cairo_set_source_rgba real real real real
  | cairo_paint
  | cairo_set_line_width real
  | cairo_select_font_face string cairo_font_slant_t cairo_font_weight_t
  | cairo_set_font_size real
  | cairo_move_to real real
  | cairo_line_to real real
  | cairo_stroke
  | cairo_stroke_preserve
  | cairo_close_path
  | cairo_pattern_create_linear real real real real
  | cairo_pattern_add_color_stop_rgba real real real real real
  | cairo_set_source
  | cairo_fill
  | cairo_fill_preserve
  | cairo_pattern_destroy
  | cairo_show_text string
  | cairo_set_dash "real list" real
  | cairo_arc real real real real real
  | cairo_rectangle real real real real

text \<open>
  \<^verbatim>\<open>cairo_text_extents\<close> belongs to cairo: the renderer takes it as the function \<open>te\<close> from
  the selected font's weight and size and the text to the two members it reads,
  \<open>(width, height)\<close>.
\<close>

type_synonym text_extents = "cairo_font_weight_t \<Rightarrow> real \<Rightarrow> string \<Rightarrow> real \<times> real"

text \<open>
  The only operation of the renderer that C++ leaves undefined: the division
  \<^verbatim>\<open>graph_w / (history.size() - 1)\<close> when the size is 1.
\<close>

datatype draw_error = DivisionByZero

text \<open>\<^verbatim>\<open>snprintf(buf, size, "%d...", v)\<close>: the decimal digits of \<open>v\<close>, cut to \<open>n - 1\<close> bytes for the buffer size \<open>n\<close>.\<close>

fun decimal :: "nat \<Rightarrow> string" where
  "decimal n =
     (if n < 10 then [char_of (48 + n)] else decimal (n div 10) @ [char_of (48 + n mod 10)])"

declare decimal.simps [simp del]

definition format_d :: "int \<Rightarrow> string" where
  "format_d v = (if v < 0 then CHR ''-'' # decimal (nat (- v)) else decimal (nat v))"

definition snprintf :: "nat \<Rightarrow> string \<Rightarrow> string" where
  "snprintf n s = take (n - 1) s"

definition margin_x :: real where
  "margin_x = 40.0"

definition margin_y :: real where
  "margin_y = 20.0"

text \<open>``Find max value for scaling'', with the minimum scale 100.\<close>

definition max_value :: "int list \<Rightarrow> int" where
  "max_value h =
     (let max_val = foldl (\<lambda>max_val val. if val > max_val then val else max_val) 0 h
      in if max_val < 100 then 100 else max_val)"

text \<open>One round of the loop ``Draw Grid Lines and Labels'', \<open>i\<close> from 0 to 4.\<close>

definition draw_grid_line :: "text_extents \<Rightarrow> real \<Rightarrow> real \<Rightarrow> int \<Rightarrow> nat \<Rightarrow> cairo_cmd list" where
  "draw_grid_line te graph_w graph_h max_val i =
     (let y = double_sub (double_add margin_y graph_h) (double_div (double_mul (real i) graph_h) 4.0);
          label = snprintf 16 (format_d (max_val * int i div 4));
          (extents_width, extents_height) = te CAIRO_FONT_WEIGHT_NORMAL 10 label
      in [cairo_set_source_rgba 0.8 0.8 0.8 1.0,
          cairo_move_to margin_x y,
          cairo_line_to (double_add margin_x graph_w) y,
          cairo_stroke,
          cairo_set_source_rgb 0.4 0.4 0.4,
          cairo_move_to (double_sub (double_sub margin_x extents_width) 5)
            (double_sub (double_add y (double_div extents_height 2)) 2),
          cairo_show_text label])"

text \<open>The position of sample \<open>i\<close>; both loops over the samples compute \<open>x\<close> this way.\<close>

definition sample_x :: "real \<Rightarrow> nat \<Rightarrow> real" where
  "sample_x step_x i = double_add margin_x (double_mul (real i) step_x)"

definition sample_y :: "real \<Rightarrow> int \<Rightarrow> int \<Rightarrow> real" where
  "sample_y graph_h max_val v =
     double_sub (double_add margin_y graph_h)
       (double_mul (double_div (real_of_int v) (real_of_int max_val)) graph_h)"

text \<open>Background, grid, graph line and gradient fill.\<close>

definition draw_plot :: "text_extents \<Rightarrow> int list \<Rightarrow> real \<Rightarrow> real \<Rightarrow> int \<Rightarrow> real \<Rightarrow> cairo_cmd list" where
  "draw_plot te h graph_w graph_h max_val step_x =
     [cairo_set_source_rgb 0.95 0.95 0.95, cairo_paint,
      cairo_set_line_width 1.0,
      cairo_select_font_face ''Sans'' CAIRO_FONT_SLANT_NORMAL CAIRO_FONT_WEIGHT_NORMAL,
      cairo_set_font_size 10]
     @ concat (map (draw_grid_line te graph_w graph_h max_val) [0..<5])
     @ [cairo_set_source_rgb 0.2 0.6 1.0, cairo_set_line_width 3.0]
     @ map (\<lambda>i. let x = sample_x step_x i; y = sample_y graph_h max_val (h ! i)
                in if i = 0 then cairo_move_to x y else cairo_line_to x y) [0..<length h]
     @ [cairo_stroke_preserve,
        cairo_line_to (double_add margin_x graph_w) (double_add margin_y graph_h),
        cairo_line_to margin_x (double_add margin_y graph_h),
        cairo_close_path,
        cairo_pattern_create_linear 0 margin_y 0 (double_add margin_y graph_h),
        cairo_pattern_add_color_stop_rgba 0 0.2 0.6 1.0 0.4,
        cairo_pattern_add_color_stop_rgba 1 0.2 0.6 1.0 0.0,
        cairo_set_source,
        cairo_fill,
        cairo_pattern_destroy]"

text \<open>
  ``Draw Current Value Label (Top Right)''. The source has this block twice; the two copies
  differ in the unit of the network label only (\<^verbatim>\<open>" MB/s"\<close>, then \<^verbatim>\<open>" Mbps"\<close>), which is
  the argument \<open>rate_unit\<close>.
\<close>

definition draw_value_label :: "text_extents \<Rightarrow> chart_area \<Rightarrow> int list \<Rightarrow> int \<Rightarrow> string \<Rightarrow> cairo_cmd list" where
  "draw_value_label te area h width rate_unit =
     (if is_live area \<and> h \<noteq> [] then
        (let current_val = last h;
             label_text =
               (case live_type area of
                  None \<Rightarrow> snprintf 64 (format_d current_val)
                | Some type \<Rightarrow>
                    if strstr type ''CPU'' \<or> strstr type ''Memory'' then
                      snprintf 64 (format_d current_val @ ''%'')
                    else if strstr type ''Network'' then
                      snprintf 64 (format_d current_val @ rate_unit)
                    else snprintf 64 (format_d current_val));
             (extents_width, extents_height) = te CAIRO_FONT_WEIGHT_BOLD 24 label_text;
             x = double_sub (double_sub (real_of_int width) margin_x) extents_width;
             y = double_add margin_y extents_height
         in [cairo_select_font_face ''Sans'' CAIRO_FONT_SLANT_NORMAL CAIRO_FONT_WEIGHT_BOLD,
             cairo_set_font_size 24,
             cairo_set_source_rgba 0.1 0.1 0.1 0.8,
             cairo_move_to x y,
             cairo_show_text label_text])
      else [])"

text \<open>
  ``Find closest index'': the scan over the samples, from \<open>index = -1\<close> and
  \<open>min_dist = 9999\<close>; a sample replaces the current one only when it is strictly nearer.
  The position \<open>x\<close> and the distance \<^verbatim>\<open>fabs(x - mouse_x)\<close> are binary64 values: the
  product, the sum and the difference are each rounded (\<^verbatim>\<open>fabs\<close> is exact).
\<close>

definition find_closest :: "nat \<Rightarrow> real \<Rightarrow> int \<Rightarrow> int \<times> real" where
  "find_closest n step_x mouse_x =
     foldl (\<lambda>(index, min_dist) i.
              let x = sample_x step_x i;
                  dist = \<bar>double_sub x (real_of_int mouse_x)\<bar>
              in if dist < min_dist then (int i, dist) else (index, min_dist))
       (- 1, 9999) [0..<n]"

text \<open>The snap tolerance: the index the overlay is drawn for, if any.\<close>

definition hovered_index :: "nat \<Rightarrow> real \<Rightarrow> int \<Rightarrow> nat option" where
  "hovered_index n step_x mouse_x =
     (let (index, min_dist) = find_closest n step_x mouse_x
      in if index \<ge> 0 \<and> min_dist < double_div step_x 1.5 then Some (nat index) else None)"

text \<open>``Keep tooltip inside bounds'': the rectangle \<open>(box_x, box_y, box_w, box_h)\<close>.\<close>

definition tooltip_box :: "real \<Rightarrow> real \<Rightarrow> real \<Rightarrow> real \<Rightarrow> int \<Rightarrow> real \<times> real \<times> real \<times> real" where
  "tooltip_box x y extents_width extents_height width =
     (let box_w = double_add extents_width 10;
          box_h = double_add extents_height 10;
          box_x = double_add x 10;
          box_y = double_sub (double_sub y 10) box_h;
          box_x = (if double_add box_x box_w > real_of_int (width - 20)
                   then double_sub (double_sub x 10) box_w else box_x);
          box_y = (if box_y < margin_y then double_add y 10 else box_y)
      in (box_x, box_y, box_w, box_h))"

text \<open>The unit that the tooltip appends to the value.\<close>

definition tooltip_unit :: "chart_area \<Rightarrow> string" where
  "tooltip_unit area =
     (if is_live area then
        (case live_type area of
           None \<Rightarrow> []
         | Some type \<Rightarrow>
             if strstr type ''Network'' then '' Mbps''
             else if strstr type ''CPU'' \<or> strstr type ''Memory'' then ''%''
             else [])
      else [])"

text \<open>``Interactive Overlay''.\<close>

definition draw_overlay :: "text_extents \<Rightarrow> chart_area \<Rightarrow> int list \<Rightarrow> int \<Rightarrow> real \<Rightarrow> int \<Rightarrow> real \<Rightarrow> cairo_cmd list" where
  "draw_overlay te area h width graph_h max_val step_x =
     (if is_hovering area then
        (let mouse_x = hover_x area
         in case hovered_index (length h) step_x mouse_x of
              None \<Rightarrow> []
            | Some index \<Rightarrow>
                (let x = sample_x step_x index;
                     y = sample_y graph_h max_val (h ! index);
                     tooltip = snprintf 32 (format_d (h ! index) @ tooltip_unit area);
                     (extents_width, extents_height) = te CAIRO_FONT_WEIGHT_NORMAL 10 tooltip;
                     (box_x, box_y, box_w, box_h) =
                       tooltip_box x y extents_width extents_height width
                 in [cairo_set_source_rgba 0.5 0.5 0.5 0.8,
                     cairo_set_line_width 1.0,
                     cairo_set_dash [4.0] 0,
                     cairo_move_to x margin_y,
                     cairo_line_to x (double_add margin_y graph_h),
                     cairo_stroke,
                     cairo_set_dash [] 0,
                     cairo_set_source_rgb 1.0 1.0 1.0,
                     cairo_arc x y 5 0 (double_mul 2 (binary64 3.14159)),
                     cairo_fill_preserve,
                     cairo_set_source_rgb 0.2 0.6 1.0,
                     cairo_set_line_width 2.0,
                     cairo_stroke,
                     cairo_select_font_face ''Sans'' CAIRO_FONT_SLANT_NORMAL CAIRO_FONT_WEIGHT_NORMAL,
                     cairo_set_font_size 10,
                     cairo_set_source_rgba 0.2 0.2 0.2 0.9,
                     cairo_rectangle box_x box_y box_w box_h,
                     cairo_fill,
                     cairo_set_source_rgb 1.0 1.0 1.0,
                     cairo_move_to (double_add box_x 5) (double_sub (double_add box_y box_h) 5),
                     cairo_show_text tooltip]))
      else [])"

text \<open>
  \<^verbatim>\<open>on_draw_chart\<close> from the line \<^verbatim>\<open>if (data_to_draw.history.empty()) return;\<close> on. The
  result is the list of cairo calls, or the error when the step is computed for a series
  of one sample (what the calls made before it amount to is then undefined with it).
\<close>

definition draw_chart :: "text_extents \<Rightarrow> chart_area \<Rightarrow> int \<Rightarrow> int \<Rightarrow> AirQualityData \<Rightarrow> draw_error + cairo_cmd list" where
  "draw_chart te area width height data_to_draw =
     (let h = history data_to_draw
      in if h = [] then Inr []
         else
           (let graph_w = double_sub (double_sub (real_of_int width) margin_x) 20.0;
                graph_h = double_sub (real_of_int height) (double_mul 2 margin_y);
                max_val = max_value h
            in if length h - 1 = 0 then Inl DivisionByZero
               else
                 (let step_x = double_div graph_w (real (length h - 1))
                  in Inr (draw_plot te h graph_w graph_h max_val step_x
                          @ draw_value_label te area h width '' MB/s''
                          @ draw_value_label te area h width '' Mbps''
                          @ draw_overlay te area h width graph_h max_val step_x))))"

text \<open>
  \<^verbatim>\<open>on_draw_chart\<close>: the choice of the data (live, a fixed city, or the current selection,
  with the early return when that is empty), then the drawing.
\<close>

definition on_draw_chart :: "bool \<Rightarrow> text_extents \<Rightarrow> globals \<Rightarrow> chart_area \<Rightarrow> int \<Rightarrow> int \<Rightarrow> draw_error + cairo_cmd list" where
  "on_draw_chart sc te g area width height =
     (if is_live area then
        draw_chart te area width height
          (get_live_data g (case live_type area of None \<Rightarrow> ''Unknown'' | Some type \<Rightarrow> type))
      else
        (case city_name area of
           Some name \<Rightarrow> draw_chart te area width height (get_mock_data sc name)
         | None \<Rightarrow>
             if history (current_aqi_data g) = [] then Inr []
             else draw_chart te area width height (current_aqi_data g)))"

text \<open>The series a chart surface shows: the history of the data that
  \<^verbatim>\<open>on_draw_chart\<close> chooses for it.\<close>

definition chart_series :: "bool \<Rightarrow> globals \<Rightarrow> chart_area \<Rightarrow> int list" where
  "chart_series sc g area =
     (if is_live area then
        history (get_live_data g (case live_type area of None \<Rightarrow> ''Unknown'' | Some type \<Rightarrow> type))
      else
        (case city_name area of
           Some name \<Rightarrow> history (get_mock_data sc name)
         | None \<Rightarrow> history (current_aqi_data g)))"

text \<open>The motion callbacks: \<^verbatim>\<open>(intptr_t)x\<close> truncates the pointer's x.\<close>

definition on_chart_motion :: "chart_area \<Rightarrow> real \<Rightarrow> chart_area" where
  "on_chart_motion area x = area\<lparr>hover_x := int_of_double x, is_hovering := True\<rparr>"

definition on_chart_leave :: "chart_area \<Rightarrow> chart_area" where
  "on_chart_leave area = area\<lparr>is_hovering := False\<rparr>"

text \<open>The distance \<open>|x_i - pointer_x|\<close> of sample \<open>i\<close> from the pointer, as the scan
  computes it.\<close>

definition sample_dist :: "real \<Rightarrow> int \<Rightarrow> nat \<Rightarrow> real" where
  "sample_dist step_x mouse_x i = \<bar>double_sub (sample_x step_x i) (real_of_int mouse_x)\<bar>"

text \<open>The width and the height of the plot area and the step between two samples of a
  series of \<open>n\<close> samples, as \<^verbatim>\<open>on_draw_chart\<close> computes them.\<close>

definition plot_width :: "int \<Rightarrow> real" where
  "plot_width width = double_sub (double_sub (real_of_int width) margin_x) 20.0"

definition plot_height :: "int \<Rightarrow> real" where
  "plot_height height = double_sub (real_of_int height) (double_mul 2 margin_y)"

definition plot_step :: "int \<Rightarrow> nat \<Rightarrow> real" where
  "plot_step width n = double_div (plot_width width) (real (n - 1))"




section \<open>The specification's description of the mock generator\<close>

text \<open>
  The specification describes the generator in its own words: a hash iterated as
  \<open>hash * 31 + char\<close> over the characters of the name, a linear congruential generator
  \<open>seed * 1103515245 + 12345\<close> seeded with the hash whose output is \<open>(seed >> 16) mod 32768\<close>,
  a fluctuation \<open>(output mod 41) - 20\<close>, and five status tiers numbered 1 to 5. The
  definitions below follow those words; the theorems compare them with the code.
\<close>

definition spec_hash :: "bool \<Rightarrow> string \<Rightarrow> 32 word" where
  "spec_hash sc name =
     foldl (\<lambda>hash c. hash * 31 + char_value sc c) 0 (takeWhile (\<lambda>c. c \<noteq> CHR 0x00) name)"

definition spec_lcg_next :: "32 word \<Rightarrow> 32 word" where
  "spec_lcg_next seed = seed * 1103515245 + 12345"

text \<open>The output of the \<open>k\<close>-th call of the generator seeded with \<open>h\<close>.\<close>

definition spec_lcg_output :: "32 word \<Rightarrow> nat \<Rightarrow> 32 word" where
  "spec_lcg_output h k = drop_bit 16 ((spec_lcg_next ^^ k) h) mod 32768"

definition spec_fluctuation :: "32 word \<Rightarrow> nat \<Rightarrow> int" where
  "spec_fluctuation h k = int (unat (spec_lcg_output h k mod 41)) - 20"

text \<open>Tier \<open>t\<close> of the specification is the label of the \<open>t\<close>-th branch of the status chain.\<close>

definition spec_tier_label :: "nat \<Rightarrow> string" where
  "spec_tier_label t =
     (if t = 1 then status_good
      else if t = 2 then status_satisfactory
      else if t = 3 then status_moderate
      else if t = 4 then status_poor
      else status_very_bad)"

section \<open>Properties of the live series\<close>

lemma length_update_history:
  "length (update_history h x) = (if length h \<ge> 24 then length h else length h + 1)"
  by (cases h) (simp_all add: update_history_def push_back_def erase_begin_def)

lemma update_history_le_24: "length h \<le> 24 \<Longrightarrow> length (update_history h x) \<le> 24"
  by (simp add: length_update_history)

lemma update_history_full:
  "length h = 24 \<Longrightarrow> update_history h x = drop 1 h @ [x]"
  by (simp add: update_history_def push_back_def erase_begin_def drop_Suc)

lemma on_live_tick_fields:
  "history_cpu (on_live_tick g c m n) = update_history (history_cpu g) (int_of_double c)"
  "history_mem (on_live_tick g c m n) = update_history (history_mem g) (int_of_double m)"
  "history_net (on_live_tick g c m n) = update_history (history_net g) (int_of_double n)"
  "current_aqi_data (on_live_tick g c m n) = current_aqi_data g"
  by (simp_all add: on_live_tick_def Let_def)

lemma run_ticks_le_24:
  "length (history_cpu g) \<le> 24 \<and> length (history_mem g) \<le> 24 \<and> length (history_net g) \<le> 24 \<Longrightarrow>
   length (history_cpu (run_ticks g ticks)) \<le> 24 \<and>
   length (history_mem (run_ticks g ticks)) \<le> 24 \<and>
   length (history_net (run_ticks g ticks)) \<le> 24"
proof (induction ticks arbitrary: g)
  case Nil
  then show ?case by simp
next
  case (Cons t ticks)
  obtain c m n where t: "t = (c, m, n)" by (cases t)
  have "length (history_cpu (on_live_tick g c m n)) \<le> 24 \<and>
        length (history_mem (on_live_tick g c m n)) \<le> 24 \<and>
        length (history_net (on_live_tick g c m n)) \<le> 24"
    using Cons.prems by (simp add: on_live_tick_fields update_history_le_24)
  from Cons.IH [OF this] show ?case by (simp add: t)
qed

lemma run_ticks_eq_24:
  "length (history_cpu g) = 24 \<and> length (history_mem g) = 24 \<and> length (history_net g) = 24 \<Longrightarrow>
   length (history_cpu (run_ticks g ticks)) = 24 \<and>
   length (history_mem (run_ticks g ticks)) = 24 \<and>
   length (history_net (run_ticks g ticks)) = 24"
proof (induction ticks arbitrary: g)
  case Nil
  then show ?case by simp
next
  case (Cons t ticks)
  obtain c m n where t: "t = (c, m, n)" by (cases t)
  have "length (history_cpu (on_live_tick g c m n)) = 24 \<and>
        length (history_mem (on_live_tick g c m n)) = 24 \<and>
        length (history_net (on_live_tick g c m n)) = 24"
    using Cons.prems by (simp add: on_live_tick_fields length_update_history)
  from Cons.IH [OF this] show ?case by (simp add: t)
qed

lemma initial_lengths:
  "length (history_cpu initial_globals) = 24"
  "length (history_mem initial_globals) = 24"
  "length (history_net initial_globals) = 24"
  by (simp_all add: initial_globals_def)

text \<open>
  Claim C1. From the program's start and after any number of ticks, each of the three live
  series holds at most 24 samples; a tick on a state whose series are within the capacity
  keeps them there; and a tick on a series that holds 24 samples drops exactly its front
  element and puts the new sample at the back: the new series is the old one without its
  first element, in the same order, followed by the sample.
\<close>

theorem live_series_capacity_fifo:
  "length (history_cpu (run_ticks initial_globals ticks)) \<le> 24 \<and>
   length (history_mem (run_ticks initial_globals ticks)) \<le> 24 \<and>
   length (history_net (run_ticks initial_globals ticks)) \<le> 24 \<and>
   (length (history_cpu g) \<le> 24 \<longrightarrow> length (history_cpu (on_live_tick g c m n)) \<le> 24) \<and>
   (length (history_mem g) \<le> 24 \<longrightarrow> length (history_mem (on_live_tick g c m n)) \<le> 24) \<and>
   (length (history_net g) \<le> 24 \<longrightarrow> length (history_net (on_live_tick g c m n)) \<le> 24) \<and>
   (length (history_cpu g) = 24 \<longrightarrow>
      history_cpu (on_live_tick g c m n) = drop 1 (history_cpu g) @ [int_of_double c]) \<and>
   (length (history_mem g) = 24 \<longrightarrow>
      history_mem (on_live_tick g c m n) = drop 1 (history_mem g) @ [int_of_double m]) \<and>
   (length (history_net g) = 24 \<longrightarrow>
      history_net (on_live_tick g c m n) = drop 1 (history_net g) @ [int_of_double n])"
proof -
  have "length (history_cpu (run_ticks initial_globals ticks)) \<le> 24 \<and>
        length (history_mem (run_ticks initial_globals ticks)) \<le> 24 \<and>
        length (history_net (run_ticks initial_globals ticks)) \<le> 24"
    by (rule run_ticks_le_24) (simp add: initial_lengths)
  then show ?thesis
    by (simp add: on_live_tick_fields update_history_le_24 update_history_full)
qed

text \<open>The theorem at the program's start: one tick with the readings 37, 50 and 12, and
  two ticks in a row.\<close>

theorem live_series_capacity_fifo_witness:
  "length (history_cpu initial_globals) = 24 \<and>
   history_cpu (on_live_tick initial_globals 37 50 12) = replicate 23 0 @ [37] \<and>
   history_mem (on_live_tick initial_globals 37 50 12) = replicate 23 0 @ [50] \<and>
   history_net (on_live_tick initial_globals 37 50 12) = replicate 23 0 @ [12] \<and>
   length (history_cpu (run_ticks initial_globals [(37, 50, 12), (99, 50, 0)])) \<le> 24"
  using live_series_capacity_fifo [of "[(37, 50, 12), (99, 50, 0)]" initial_globals 37 50 12]
  by (simp add: initial_globals_def int_of_double_def)

text \<open>
  Claim C10. Without \<^verbatim>\<open>_WIN32\<close>, for every value \<open>r \<ge> 0\<close> that \<^verbatim>\<open>rand()\<close> can return, the
  CPU and the network sampler return a whole number between 0 and 99, which is also the
  sample the tick stores; the memory sampler returns 50 and reads no random value. The
  samplers have no failing branch.
\<close>

theorem fallback_samplers_bounded:
  "(0 \<le> r \<longrightarrow>
      GetCPULoad r = real_of_int (int_of_double (GetCPULoad r)) \<and>
      0 \<le> int_of_double (GetCPULoad r) \<and> int_of_double (GetCPULoad r) \<le> 99 \<and>
      GetNetworkUsage r = real_of_int (int_of_double (GetNetworkUsage r)) \<and>
      0 \<le> int_of_double (GetNetworkUsage r) \<and> int_of_double (GetNetworkUsage r) \<le> 99) \<and>
   GetMemoryUsage = 50 \<and> int_of_double GetMemoryUsage = 50 \<and>
   (0 \<le> r1 \<and> 0 \<le> r2 \<longrightarrow>
      last (history_cpu (on_live_tick_fallback g r1 r2)) \<in> {0..99} \<and>
      last (history_mem (on_live_tick_fallback g r1 r2)) = 50 \<and>
      last (history_net (on_live_tick_fallback g r1 r2)) \<in> {0..99})"
proof -
  have rem: "0 \<le> c_rem x 100 \<and> c_rem x 100 \<le> 99" if "0 \<le> x" for x
  proof (cases "x = 0")
    case True
    then show ?thesis by (simp add: c_rem_def)
  next
    case False
    with that have "0 < x" by simp
    then have "c_rem x 100 = x mod 100" by (simp add: c_rem_def)
    moreover have "0 \<le> x mod 100" "x mod 100 < 100" by simp_all
    ultimately show ?thesis by simp
  qed
  have conv: "int_of_double (real_of_int k) = k" for k
    by (simp add: int_of_double_def)
  have lastu: "last (update_history h x) = x" for h x
    by (simp add: update_history_def push_back_def)
  have fifty: "int_of_double 50 = 50"
    by (simp add: int_of_double_def)
  show ?thesis
    using rem [of r] rem [of r1] rem [of r2]
    by (simp add: GetCPULoad_def GetNetworkUsage_def GetMemoryUsage_def conv lastu fifty
        on_live_tick_fallback_def on_live_tick_fields)
qed

text \<open>The theorem for the \<^verbatim>\<open>rand()\<close> results 1234567 and 42.\<close>

theorem fallback_samplers_bounded_witness:
  "int_of_double (GetCPULoad 1234567) \<le> 99 \<and> 0 \<le> int_of_double (GetCPULoad 1234567) \<and>
   last (history_cpu (on_live_tick_fallback initial_globals 1234567 42)) \<in> {0..99} \<and>
   last (history_mem (on_live_tick_fallback initial_globals 1234567 42)) = 50"
  using fallback_samplers_bounded [of 1234567 1234567 42 initial_globals]
  by simp

section \<open>Properties of the mock generator\<close>


lemma unat_mod_300: "unat ((h :: 32 word) mod 300) < 300"
  by (simp add: unat_mod)

lemma unat_mod_41: "unat ((h :: 32 word) mod 41) < 41"
  by (simp add: unat_mod)

lemma signed_take_bit_small: "- 1000 \<le> k \<Longrightarrow> k < 1000 \<Longrightarrow> signed_take_bit 31 (k :: int) = k"
  by (rule signed_take_bit_int_eq_self) simp_all

lemma sint_small:
  fixes x :: "32 word"
  assumes "unat x < 1000"
  shows "sint x = int (unat x)"
proof -
  have e: "int (unat x) = uint x" by simp
  have "int (unat x) < 1000" using assms by linarith
  then have "uint x < 1000" by (simp only: e)
  moreover have "0 \<le> uint x" by simp
  then have "- 1000 \<le> uint x" by linarith
  ultimately have "signed_take_bit 31 (uint x) = uint x" by (intro signed_take_bit_small)
  moreover have "sint x = signed_take_bit 31 (uint x)" by (simp add: sint_uint)
  ultimately show ?thesis by simp
qed

lemma base_value: "sint ((h :: 32 word) mod 300 + 50) = int (unat (h mod 300)) + 50"
proof -
  have lt: "unat (h mod 300) < 300" by (rule unat_mod_300)
  have "unat (h mod 300 + 50) = unat (h mod 300) + unat (50 :: 32 word)"
    using lt by (subst unat_add_lem [THEN iffD1]) simp_all
  then have u: "unat (h mod 300 + 50) = unat (h mod 300) + 50" by simp
  have "sint (h mod 300 + 50) = int (unat (h mod 300 + 50))"
    using lt u by (intro sint_small) simp
  then show ?thesis using u by simp
qed

lemma fluct_value: "sint ((r :: 32 word) mod 41 - 20) = int (unat (r mod 41)) - 20"
proof -
  have lt: "unat (r mod 41) < 41" by (rule unat_mod_41)
  have s: "sint (r mod 41) = int (unat (r mod 41))"
    using lt by (intro sint_small) simp
  have "sint (r mod 41 - 20) = signed_take_bit 31 (sint (r mod 41) - sint (20 :: 32 word))"
    by (simp add: sint_word_ariths)
  also have "\<dots> = signed_take_bit 31 (int (unat (r mod 41)) - 20)"
    by (simp only: s) simp
  also have "\<dots> = int (unat (r mod 41)) - 20"
    using lt by (intro signed_take_bit_small) linarith+
  finally show ?thesis .
qed

lemma hash_loop_foldl:
  "hash_loop sc h s = foldl (\<lambda>hash c. hash * 31 + char_value sc c) h (takeWhile (\<lambda>c. c \<noteq> CHR 0x00) s)"
  by (induction s arbitrary: h) simp_all

lemma my_rand_spec:
  "my_rand seed = (spec_lcg_output seed 1, spec_lcg_next seed)"
  by (simp add: my_rand_def spec_lcg_output_def spec_lcg_next_def Let_def drop_bit_eq_div)

lemma spec_fluctuation_shift:
  "spec_fluctuation (spec_lcg_next seed) k = spec_fluctuation seed (Suc k)"
  by (simp add: spec_fluctuation_def spec_lcg_output_def funpow_swap1)

lemma spec_fluctuation_range: "- 20 \<le> spec_fluctuation h k \<and> spec_fluctuation h k \<le> 20"
  unfolding spec_fluctuation_def using unat_mod_41 [of "spec_lcg_output h k"] by linarith

lemma history_loop_step:
  "i < 24 \<Longrightarrow>
   history_loop i seed cur hist =
     history_loop (i + 1) (spec_lcg_next seed) (max 0 (cur + spec_fluctuation seed (Suc 0)))
       (max 0 (cur + spec_fluctuation seed (Suc 0)) # hist)"
  by (subst history_loop.simps)
     (simp add: my_rand_spec Let_def fluct_value spec_fluctuation_def max_def)

lemma history_loop_done: "\<not> i < 24 \<Longrightarrow> history_loop i seed cur hist = hist"
  by (subst history_loop.simps) simp

lemma history_loop_inv:
  "i \<le> 24 \<Longrightarrow> nat (24 - i) = m \<Longrightarrow>
   length (history_loop i seed cur hist) = length hist + m \<and>
   drop m (history_loop i seed cur hist) = hist \<and>
   (\<forall>j<m. history_loop i seed cur hist ! (m - 1 - j) =
      max 0 ((if j = 0 then cur else history_loop i seed cur hist ! (m - j))
             + spec_fluctuation seed (Suc j)))"
proof (induction m arbitrary: i seed cur hist)
  case 0
  then have "\<not> i < 24" by simp
  then show ?case by (simp add: history_loop_done)
next
  case (Suc m)
  define val where "val = max 0 (cur + spec_fluctuation seed (Suc 0))"
  define R where "R = history_loop i seed cur hist"
  from Suc.prems have lt: "i < 24" by simp
  have R: "R = history_loop (i + 1) (spec_lcg_next seed) val (val # hist)"
    unfolding R_def val_def using lt by (rule history_loop_step)
  have "i + 1 \<le> 24" "nat (24 - (i + 1)) = m" using Suc.prems by simp_all
  from Suc.IH [OF this, of "spec_lcg_next seed" val "val # hist", folded R]
  have len: "length R = length (val # hist) + m"
    and dr: "drop m R = val # hist"
    and ih: "\<forall>j<m. R ! (m - 1 - j) =
        max 0 ((if j = 0 then val else R ! (m - j)) + spec_fluctuation (spec_lcg_next seed) (Suc j))"
    by blast+
  have at_m: "R ! m = val"
    using dr by (rule nth_via_drop)
  have dr': "drop (Suc m) R = hist"
    using dr by (metis drop_Suc tl_drop list.sel(3))
  have "R ! (Suc m - 1 - j) =
      max 0 ((if j = 0 then cur else R ! (Suc m - j)) + spec_fluctuation seed (Suc j))"
    if "j < Suc m" for j
  proof (cases j)
    case 0
    then show ?thesis by (simp add: at_m val_def)
  next
    case (Suc j')
    with that have j': "j' < m" by simp
    with ih have "R ! (m - 1 - j') =
        max 0 ((if j' = 0 then val else R ! (m - j')) + spec_fluctuation (spec_lcg_next seed) (Suc j'))"
      by blast
    then show ?thesis
      using Suc at_m by (cases "j' = 0") (simp_all add: spec_fluctuation_shift)
  qed
  with len dr' show ?case unfolding R_def by simp
qed

lemma get_mock_data_fields:
  "city (get_mock_data sc name) = Some name"
  "aqi (get_mock_data sc name) = Some (int (unat (spec_hash sc name mod 300)) + 50)"
  "status (get_mock_data sc name) = Some (aqi_status (int (unat (spec_hash sc name mod 300)) + 50))"
  "pm25 (get_mock_data sc name) = Some (real_of_int (int (unat (spec_hash sc name mod 300)) + 50) * 0.6)"
  "pm10 (get_mock_data sc name) = Some (real_of_int (int (unat (spec_hash sc name mod 300)) + 50) * 1.2)"
  "history (get_mock_data sc name) =
     history_loop 0 (spec_hash sc name) (int (unat (spec_hash sc name mod 300)) + 50) []"
  by (simp_all add: get_mock_data_def Let_def declared_def base_value hash_loop_foldl spec_hash_def)

lemma base_range:
  "50 \<le> int (unat ((h :: 32 word) mod 300)) + 50 \<and> int (unat (h mod 300)) + 50 \<le> 349"
  using unat_mod_300 [of h] by linarith

lemma length_history_mock: "length (history (get_mock_data sc name)) = 24"
  unfolding get_mock_data_fields
  using history_loop_inv [of 0 24 "spec_hash sc name" _ "[]"] by simp

text \<open>
  Claim C3. For every name, the base value is \<open>(hash mod 300) + 50\<close> for the hash iterated as
  \<open>hash * 31 + char\<close>, and lies between 50 and 349. The history holds exactly 24 samples. The
  \<open>k\<close>-th sample generated (\<open>k = 0\<close> first) stands at index \<open>23 - k\<close>, so each new sample went
  to the front; it is the previous value (the base value for \<open>k = 0\<close>, the sample at index
  \<open>24 - k\<close> otherwise) plus the fluctuation \<open>(output mod 41) - 20\<close> of the next generator
  output, raised to 0 when negative; every fluctuation lies between -20 and 20. The 24
  entries are these 24 walked values: the base value is not one of the insertions.
\<close>

theorem mock_series_construction:
  fixes sc :: bool and name :: string
  defines "d \<equiv> get_mock_data sc name"
    and "base \<equiv> int (unat (spec_hash sc name mod 300)) + 50"
  shows "aqi d = Some base \<and> 50 \<le> base \<and> base \<le> 349 \<and>
         length (history d) = 24 \<and>
         (\<forall>k<24. - 20 \<le> spec_fluctuation (spec_hash sc name) (Suc k) \<and>
                  spec_fluctuation (spec_hash sc name) (Suc k) \<le> 20 \<and>
                  history d ! (23 - k) =
                    max 0 ((if k = 0 then base else history d ! (24 - k))
                           + spec_fluctuation (spec_hash sc name) (Suc k)))"
proof -
  have inv: "length (history d) = 0 + 24 \<and> drop 24 (history d) = [] \<and>
      (\<forall>j<24. history d ! (24 - 1 - j) =
         max 0 ((if j = 0 then base else history d ! (24 - j))
                + spec_fluctuation (spec_hash sc name) (Suc j)))"
    unfolding d_def base_def get_mock_data_fields
    using history_loop_inv [of 0 24 "spec_hash sc name" _ "[]"] by simp
  have "aqi d = Some base" by (simp add: d_def base_def get_mock_data_fields)
  moreover have "50 \<le> base \<and> base \<le> 349" unfolding base_def by (rule base_range)
  ultimately show ?thesis using inv spec_fluctuation_range by simp
qed

lemma spec_hash_Mumbai: "spec_hash True ''Mumbai'' = 2315841093"
  by (simp add: spec_hash_def char_value_def)

lemma spec_fluct_Mumbai: "spec_fluctuation 2315841093 (Suc 0) = - 7"
  by (simp add: spec_fluctuation_def spec_lcg_output_def spec_lcg_next_def drop_bit_eq_div)

text \<open>The theorem for the name \<open>Mumbai\<close> on a platform with signed \<^verbatim>\<open>char\<close>: the hash is
  2315841093, the base value 143, the first fluctuation -7, so the last entry of the history
  is 136.\<close>

theorem mock_series_construction_witness:
  "(0 :: nat) < 24 \<and> aqi (get_mock_data True ''Mumbai'') = Some 143 \<and>
   length (history (get_mock_data True ''Mumbai'')) = 24 \<and>
   history (get_mock_data True ''Mumbai'') ! 23 = 136"
proof -
  note inst = mock_series_construction [of True "''Mumbai''", unfolded spec_hash_Mumbai]
  from inst have a: "aqi (get_mock_data True ''Mumbai'') = Some 143"
    and l: "length (history (get_mock_data True ''Mumbai'')) = 24"
    by simp_all
  from inst have "\<forall>k<24. history (get_mock_data True ''Mumbai'') ! (23 - k) =
      max 0 ((if k = 0 then int (unat ((2315841093 :: 32 word) mod 300)) + 50
              else history (get_mock_data True ''Mumbai'') ! (24 - k))
             + spec_fluctuation 2315841093 (Suc k))"
    by blast
  then have "history (get_mock_data True ''Mumbai'') ! (23 - 0) =
      max 0 ((if (0 :: nat) = 0 then int (unat ((2315841093 :: 32 word) mod 300)) + 50
              else history (get_mock_data True ''Mumbai'') ! (24 - 0))
             + spec_fluctuation 2315841093 (Suc 0))"
    by (rule allE [of _ 0]) simp
  then have "history (get_mock_data True ''Mumbai'') ! 23 = 136"
    by (simp add: spec_fluct_Mumbai)
  with a l show ?thesis by simp
qed


lemma status_labels_distinct:
  "distinct [status_good, status_satisfactory, status_moderate, status_poor, status_very_bad]"
  by (simp add: status_good_def status_satisfactory_def status_moderate_def status_poor_def
      status_very_bad_def)

text \<open>
  Claim C4. For every AQI value the status chain of the mock generator has inclusive upper
  bounds: at most 50 gives tier 1 (Good), above 50 up to 100 tier 2 (Satisfactory), above 100
  up to 200 tier 3 (Moderate), above 200 up to 300 tier 4 (Poor), above 300 tier 5
  (Very Bad); so 50 is tier 1, 51 and 100 tier 2, 101 and 200 tier 3, 201 and 300 tier 4,
  301 tier 5. The five labels differ from each other and begin with the quoted names, and
  the generator's status is the chain applied to its base value.
\<close>

theorem status_tier_boundaries:
  "(a \<le> 50 \<longrightarrow> aqi_status a = spec_tier_label 1) \<and>
   (50 < a \<and> a \<le> 100 \<longrightarrow> aqi_status a = spec_tier_label 2) \<and>
   (100 < a \<and> a \<le> 200 \<longrightarrow> aqi_status a = spec_tier_label 3) \<and>
   (200 < a \<and> a \<le> 300 \<longrightarrow> aqi_status a = spec_tier_label 4) \<and>
   (300 < a \<longrightarrow> aqi_status a = spec_tier_label 5) \<and>
   aqi_status 50 = spec_tier_label 1 \<and> aqi_status 51 = spec_tier_label 2 \<and>
   aqi_status 100 = spec_tier_label 2 \<and> aqi_status 101 = spec_tier_label 3 \<and>
   aqi_status 200 = spec_tier_label 3 \<and> aqi_status 201 = spec_tier_label 4 \<and>
   aqi_status 300 = spec_tier_label 4 \<and> aqi_status 301 = spec_tier_label 5 \<and>
   distinct (map spec_tier_label [1, 2, 3, 4, 5]) \<and>
   take 4 (spec_tier_label 1) = ''Good'' \<and>
   take 12 (spec_tier_label 2) = ''Satisfactory'' \<and>
   take 8 (spec_tier_label 3) = ''Moderate'' \<and>
   take 4 (spec_tier_label 4) = ''Poor'' \<and>
   take 8 (spec_tier_label 5) = ''Very Bad'' \<and>
   (\<exists>b. aqi (get_mock_data sc name) = Some b \<and>
        status (get_mock_data sc name) = Some (aqi_status b))"
proof -
  have chain:
    "(a \<le> 50 \<longrightarrow> aqi_status a = spec_tier_label 1) \<and>
     (50 < a \<and> a \<le> 100 \<longrightarrow> aqi_status a = spec_tier_label 2) \<and>
     (100 < a \<and> a \<le> 200 \<longrightarrow> aqi_status a = spec_tier_label 3) \<and>
     (200 < a \<and> a \<le> 300 \<longrightarrow> aqi_status a = spec_tier_label 4) \<and>
     (300 < a \<longrightarrow> aqi_status a = spec_tier_label 5)" for a
    by (simp add: aqi_status_def spec_tier_label_def)
  have edges:
    "aqi_status 50 = spec_tier_label 1 \<and> aqi_status 51 = spec_tier_label 2 \<and>
     aqi_status 100 = spec_tier_label 2 \<and> aqi_status 101 = spec_tier_label 3 \<and>
     aqi_status 200 = spec_tier_label 3 \<and> aqi_status 201 = spec_tier_label 4 \<and>
     aqi_status 300 = spec_tier_label 4 \<and> aqi_status 301 = spec_tier_label 5"
    by (simp add: aqi_status_def spec_tier_label_def)
  have dist: "distinct (map spec_tier_label [1, 2, 3, 4, 5])"
    using status_labels_distinct by (simp add: spec_tier_label_def)
  have names:
    "take 4 (spec_tier_label 1) = ''Good'' \<and>
     take 12 (spec_tier_label 2) = ''Satisfactory'' \<and>
     take 8 (spec_tier_label 3) = ''Moderate'' \<and>
     take 4 (spec_tier_label 4) = ''Poor'' \<and>
     take 8 (spec_tier_label 5) = ''Very Bad''"
    by (simp add: spec_tier_label_def status_good_def status_satisfactory_def
        status_moderate_def status_poor_def status_very_bad_def)
  have mock: "\<exists>b. aqi (get_mock_data sc name) = Some b \<and>
        status (get_mock_data sc name) = Some (aqi_status b)"
    by (simp add: get_mock_data_fields)
  from chain [of a] edges dist names mock show ?thesis by blast
qed

text \<open>The theorem at one value inside each of the five ranges.\<close>

theorem status_tier_boundaries_witness:
  "aqi_status 30 = spec_tier_label 1 \<and> aqi_status 75 = spec_tier_label 2 \<and>
   aqi_status 150 = spec_tier_label 3 \<and> aqi_status 250 = spec_tier_label 4 \<and>
   aqi_status 349 = spec_tier_label 5"
  using status_tier_boundaries [of 30] status_tier_boundaries [of 75]
    status_tier_boundaries [of 150] status_tier_boundaries [of 250]
    status_tier_boundaries [of 349]
  by simp

text \<open>
  Claim C2. The mock generator is deterministic: two calls with the same name, made from
  any two program states \<open>g1\<close> and \<open>g2\<close> (whatever ticks, other selections or \<^verbatim>\<open>rand()\<close>
  calls came before), store the same data: the same base value, status, two readings and
  the same history of 24 samples. The generator reads no global and no random source.
\<close>

theorem mock_generator_deterministic:
  fixes sc :: bool and name :: string and g1 g2 :: globals
  defines "d1 \<equiv> current_aqi_data (on_fetch_aqi_clicked sc g1 (Some name))"
    and "d2 \<equiv> current_aqi_data (on_fetch_aqi_clicked sc g2 (Some name))"
  shows "d1 = d2 \<and> aqi d1 = aqi d2 \<and> status d1 = status d2 \<and>
         pm25 d1 = pm25 d2 \<and> pm10 d1 = pm10 d2 \<and> history d1 = history d2 \<and>
         length (history d1) = 24 \<and> length (history d2) = 24 \<and>
         d1 = get_mock_data sc name"
proof -
  have "d1 = get_mock_data sc name" "d2 = get_mock_data sc name"
    by (simp_all add: d1_def d2_def on_fetch_aqi_clicked_def)
  moreover have "length (history (get_mock_data sc name)) = 24"
    by (rule length_history_mock)
  ultimately show ?thesis by simp
qed

lemma live_not_a_tier:
  "''Live'' \<notin> set (map spec_tier_label [1, 2, 3, 4, 5])"
  by (simp add: spec_tier_label_def status_good_def status_satisfactory_def
        status_moderate_def status_poor_def status_very_bad_def)

lemma get_live_data_fields:
  fixes g :: globals and type :: string
  defines "h \<equiv> (if strstr type ''CPU'' then history_cpu g
                 else if strstr type ''Mem'' then history_mem g else history_net g)"
  shows "city (get_live_data g type) = Some type"
    "status (get_live_data g type) = Some ''Live''"
    "history (get_live_data g type) = h"
    "aqi (get_live_data g type) = Some (if h = [] then 0 else last h)"
    "pm25 (get_live_data g type) = Some (real_of_int (if h = [] then 0 else last h) * 0.5)"
    "pm10 (get_live_data g type) = Some (real_of_int (if h = [] then 0 else last h) * 1.1)"
  by (simp_all add: get_live_data_def Let_def declared_def h_def)

text \<open>
  Claim C8, as amended. For a mock series the two secondary readings are the base value
  times 0.6 and times 1.2. For a live kind the summary values are not absent: the status
  is the fixed label \<open>Live\<close>, which is none of the five tier labels, and the two readings
  are the latest sample (0 for an empty series) times 0.5 and times 1.1.
\<close>

theorem summary_values:
  fixes sc :: bool and name type :: string and g :: globals
  defines "m \<equiv> get_mock_data sc name"
    and "base \<equiv> int (unat (spec_hash sc name mod 300)) + 50"
    and "l \<equiv> get_live_data g type"
  defines "latest \<equiv> (if history l = [] then 0 else last (history l))"
  shows "aqi m = Some base \<and>
         pm25 m = Some (real_of_int base * 0.6) \<and>
         pm10 m = Some (real_of_int base * 1.2) \<and>
         status m = Some (aqi_status base) \<and>
         aqi l = Some latest \<and>
         status l = Some ''Live'' \<and>
         ''Live'' \<notin> set (map spec_tier_label [1, 2, 3, 4, 5]) \<and>
         pm25 l = Some (real_of_int latest * 0.5) \<and>
         pm10 l = Some (real_of_int latest * 1.1)"
  unfolding m_def base_def l_def latest_def
  using live_not_a_tier by (simp add: get_mock_data_fields get_live_data_fields)

text \<open>
  Claim C8 as stated fails: after one tick with a CPU reading of 40 the live CPU data carries
  the status \<open>Live\<close> and the readings 20 and 44.
\<close>

theorem live_summary_present:
  "status (get_live_data (on_live_tick initial_globals 40 50 7) ''CPU Load'') = Some ''Live'' \<and>
   pm25 (get_live_data (on_live_tick initial_globals 40 50 7) ''CPU Load'') = Some 20 \<and>
   pm10 (get_live_data (on_live_tick initial_globals 40 50 7) ''CPU Load'') = Some 44 \<and>
   pm25 (get_live_data (on_live_tick initial_globals 40 50 7) ''CPU Load'') \<noteq> None \<and>
   pm10 (get_live_data (on_live_tick initial_globals 40 50 7) ''CPU Load'') \<noteq> None \<and>
   status (get_live_data (on_live_tick initial_globals 40 50 7) ''CPU Load'') \<noteq> None"
  by (simp add: get_live_data_fields on_live_tick_fields initial_globals_def
      update_history_def push_back_def erase_begin_def int_of_double_def)

section \<open>Properties of binary64 rounding\<close>

text \<open>
  The exponent brackets its argument, so \<open>binary64 x\<close> is a multiple of the unit in the last
  place of \<open>x\<close> at most half a unit away from \<open>x\<close>; only 0 is rounded to 0, and every integer
  below \<open>2\<^sup>5\<^sup>3\<close> in absolute value is a binary64 value.
\<close>

lemma bit_length_bounds: "0 < n \<Longrightarrow> 2 ^ (bit_length n - 1) \<le> n \<and> n < 2 ^ bit_length n"
proof (induction n rule: bit_length.induct)
  case (1 n)
  from "1.prems" have bl: "bit_length n = Suc (bit_length (n div 2))"
    by (simp add: bit_length.simps [of n])
  show ?case
  proof (cases "n div 2 = 0")
    case True
    with "1.prems" have "n = 1" by (simp add: div_eq_0_iff) 
    then show ?thesis by (simp add: bit_length.simps [of "Suc 0"] bit_length.simps [of 0])
  next
    case False
    with "1.IH" "1.prems" have ih: "2 ^ (bit_length (n div 2) - 1) \<le> n div 2"
      "n div 2 < 2 ^ bit_length (n div 2)" by simp_all
    from False have pos: "0 < bit_length (n div 2)"
      by (simp add: bit_length.simps [of "n div 2"])
    then have "(2 :: nat) ^ bit_length (n div 2) = 2 * 2 ^ (bit_length (n div 2) - 1)"
      by (cases "bit_length (n div 2)") simp_all
    with ih(1) have "(2 :: nat) ^ bit_length (n div 2) \<le> 2 * (n div 2)" by simp
    then have lo: "(2 :: nat) ^ (bit_length n - 1) \<le> n" by (simp add: bl)
    from ih(2) have "n < 2 * 2 ^ bit_length (n div 2)" by linarith
    then have "n < 2 ^ bit_length n" by (simp add: bl)
    with lo show ?thesis by simp
  qed
qed

lemma pow2_powr: "pow2 e = 2 powr real_of_int e"
proof (cases "0 \<le> e")
  case True
  then have "2 powr real_of_int e = 2 powr real (nat e)" by simp
  also have "\<dots> = 2 ^ nat e" by (rule powr_realpow) simp
  finally show ?thesis using True by (simp add: pow2_def)
next
  case False
  then have "2 powr real_of_int e = 2 powr (- real (nat (- e)))" by simp
  also have "\<dots> = 1 / 2 powr real (nat (- e))" by (simp add: powr_minus_divide)
  also have "2 powr real (nat (- e)) = 2 ^ nat (- e)" by (rule powr_realpow) simp
  finally show ?thesis using False by (simp add: pow2_def)
qed

lemma pow2_pos: "0 < pow2 e"
  by (simp add: pow2_powr)

lemma pow2_less_iff: "pow2 a < pow2 b \<longleftrightarrow> a < b"
  by (simp add: pow2_powr)

lemma pow2_half: "pow2 (e - 1) = pow2 e / 2"
  by (simp add: pow2_powr powr_diff)

lemma exponent_bracket:
  assumes "0 < x"
  shows "pow2 (exponent x) \<le> x \<and> x < pow2 (exponent x + 1)"
proof (cases "1 \<le> x")
  case True
  define n where "n = nat \<lfloor>x\<rfloor>"
  from True have n: "0 < n" "real n \<le> x" "x < real n + 1"
    by (simp_all add: n_def)
  from bit_length_bounds [OF n(1)]
  have b: "2 ^ (bit_length n - 1) \<le> n" "n < 2 ^ bit_length n" by simp_all
  from n(1) have blpos: "0 < bit_length n" by (simp add: bit_length.simps [of n])
  have e: "exponent x = int (bit_length n) - 1" using True by (simp add: exponent_def n_def)
  have "pow2 (exponent x) = 2 ^ (bit_length n - 1)"
    using blpos by (simp add: e pow2_def nat_diff_distrib')
  also have "\<dots> \<le> real n" using b(1) by (metis of_nat_le_iff of_nat_numeral of_nat_power)
  finally have lo: "pow2 (exponent x) \<le> x" using n(2) by simp
  have "pow2 (exponent x + 1) = 2 ^ bit_length n" by (simp add: e pow2_def)
  moreover have "real n + 1 \<le> 2 ^ bit_length n"
    using b(2) by (metis Suc_leI of_nat_Suc of_nat_le_iff of_nat_numeral of_nat_power add.commute)
  ultimately have "x < pow2 (exponent x + 1)" using n(3) by simp
  with lo show ?thesis by simp
next
  case False
  define y where "y = 1 / x"
  from False assms have y: "1 < y" by (simp add: y_def)
  define m where "m = nat (\<lceil>y\<rceil> - 1)"
  from y have c: "2 \<le> \<lceil>y\<rceil>" by linarith
  then have m: "0 < m" "y \<le> real m + 1" "real m < y"
    by (simp_all add: m_def) linarith+
  from bit_length_bounds [OF m(1)]
  have b: "2 ^ (bit_length m - 1) \<le> m" "m < 2 ^ bit_length m" by simp_all
  from m(1) have blpos: "0 < bit_length m" by (simp add: bit_length.simps [of m])
  have e: "exponent x = - int (bit_length m)" using False by (simp add: exponent_def m_def y_def)
  have "real m + 1 \<le> 2 ^ bit_length m"
    using b(2) by (metis Suc_leI of_nat_Suc of_nat_le_iff of_nat_numeral of_nat_power add.commute)
  with m(2) have "y \<le> 2 ^ bit_length m" by simp
  then have "1 / 2 ^ bit_length m \<le> x"
    using assms by (simp add: y_def field_simps)
  moreover have "pow2 (exponent x) = 1 / 2 ^ bit_length m"
    using blpos by (simp add: e pow2_def)
  ultimately have lo: "pow2 (exponent x) \<le> x" by simp
  have "(2 :: real) ^ (bit_length m - 1) \<le> real m"
    using b(1) by (metis of_nat_le_iff of_nat_numeral of_nat_power)
  with m(3) have "2 ^ (bit_length m - 1) < y" by linarith
  then have "x < 1 / 2 ^ (bit_length m - 1)"
    using assms by (simp add: y_def field_simps)
  moreover have "pow2 (exponent x + 1) = 1 / 2 ^ (bit_length m - 1)"
  proof (cases "bit_length m = 1")
    case True
    then show ?thesis by (simp add: e pow2_def)
  next
    case False
    with blpos have "1 < bit_length m" by simp
    then show ?thesis by (simp add: e pow2_def nat_diff_distrib')
  qed
  ultimately show ?thesis using lo by simp
qed

lemma round_half_even_error: "\<bar>real_of_int (round_half_even z) - z\<bar> \<le> 1 / 2"
  unfolding round_half_even_def Let_def by (simp; linarith)


lemma binary64_error:
  assumes "x \<noteq> 0"
  shows "\<bar>binary64 x - x\<bar> \<le> pow2 (exponent \<bar>x\<bar> - 53)"
proof -
  define u where "u = pow2 (exponent \<bar>x\<bar> - 52)"
  have u: "0 < u" by (simp add: u_def pow2_pos)
  have "binary64 x - x = (real_of_int (round_half_even (x / u)) - x / u) * u"
    using assms u by (simp add: binary64_def Let_def u_def [symmetric] algebra_simps)
  then have "\<bar>binary64 x - x\<bar> = \<bar>real_of_int (round_half_even (x / u)) - x / u\<bar> * u"
    using u by (simp add: abs_mult)
  also have "\<dots> \<le> 1 / 2 * u"
    using round_half_even_error [of "x / u"] u by (intro mult_right_mono) simp_all
  also have "\<dots> = pow2 (exponent \<bar>x\<bar> - 53)"
    using pow2_half [of "exponent \<bar>x\<bar> - 52"] by (simp add: u_def)
  finally show ?thesis .
qed

lemma binary64_eq_0_iff: "binary64 x = 0 \<longleftrightarrow> x = 0"
proof
  assume z: "binary64 x = 0"
  show "x = 0"
  proof (rule ccontr)
    assume nz: "x \<noteq> 0"
    then have pos: "0 < \<bar>x\<bar>" by simp
    from binary64_error [OF nz] z have "\<bar>x\<bar> \<le> pow2 (exponent \<bar>x\<bar> - 53)" by simp
    moreover have "pow2 (exponent \<bar>x\<bar> - 53) < pow2 (exponent \<bar>x\<bar>)"
      by (simp add: pow2_less_iff)
    moreover from exponent_bracket [OF pos] have "pow2 (exponent \<bar>x\<bar>) \<le> \<bar>x\<bar>" by simp
    ultimately show False by linarith
  qed
next
  assume "x = 0"
  then show "binary64 x = 0" by (simp add: binary64_def)
qed


section \<open>Properties of the chart renderer\<close>

lemmas binary64_eval = binary64_def exponent_def pow2_def round_half_even_def
  bit_length.simps Let_def double_add_def double_sub_def double_mul_def double_div_def

lemma find_closest_Suc:
  "find_closest (Suc n) step_x mouse_x =
     (case find_closest n step_x mouse_x of
        (index, min_dist) \<Rightarrow>
          if sample_dist step_x mouse_x n < min_dist then (int n, sample_dist step_x mouse_x n)
          else (index, min_dist))"
  by (simp add: find_closest_def sample_dist_def Let_def split_def)

lemma find_closest_0: "find_closest 0 step_x mouse_x = (- 1, 9999)"
  by (simp add: find_closest_def)


lemma find_closest_inv:
  fixes step_x :: real and mouse_x :: int
  defines "D \<equiv> sample_dist step_x mouse_x"
  shows "(find_closest n step_x mouse_x = (- 1, 9999) \<and> (\<forall>i<n. 9999 \<le> D i)) \<or>
         (\<exists>k<n. find_closest n step_x mouse_x = (int k, D k) \<and> D k < 9999 \<and>
                 (\<forall>i<n. D k \<le> D i) \<and> (\<forall>i<k. D k < D i))"
proof (induction n)
  case 0
  then show ?case by (simp add: find_closest_0)
next
  case (Suc n)
  from Suc.IH show ?case
  proof (elim disjE conjE exE)
    assume fc: "find_closest n step_x mouse_x = (- 1, 9999)" and far: "\<forall>i<n. 9999 \<le> D i"
    show ?thesis
    proof (cases "D n < 9999")
      case True
      then have "find_closest (Suc n) step_x mouse_x = (int n, D n)"
        by (simp add: find_closest_Suc fc D_def)
      moreover have "\<forall>i<Suc n. D n \<le> D i"
        using far True by (auto simp: less_Suc_eq)
      moreover have "\<forall>i<n. D n < D i"
        using far True by fastforce
      ultimately show ?thesis using True by blast
    next
      case False
      then have "find_closest (Suc n) step_x mouse_x = (- 1, 9999)"
        by (simp add: find_closest_Suc fc D_def)
      moreover have "\<forall>i<Suc n. 9999 \<le> D i"
        using far False by (auto simp: less_Suc_eq)
      ultimately show ?thesis by blast
    qed
  next
    fix k
    assume k: "k < n" and fc: "find_closest n step_x mouse_x = (int k, D k)"
      and lt: "D k < 9999" and le: "\<forall>i<n. D k \<le> D i" and first: "\<forall>i<k. D k < D i"
    show ?thesis
    proof (cases "D n < D k")
      case True
      then have "find_closest (Suc n) step_x mouse_x = (int n, D n)"
        by (simp add: find_closest_Suc fc D_def)
      moreover have "D n < 9999" using True lt by simp
      moreover have "\<forall>i<Suc n. D n \<le> D i"
        using le True by (fastforce simp: less_Suc_eq)
      moreover have "\<forall>i<n. D n < D i"
        using le True by fastforce
      ultimately show ?thesis by blast
    next
      case False
      then have "find_closest (Suc n) step_x mouse_x = (int k, D k)"
        by (simp add: find_closest_Suc fc D_def)
      moreover have "\<forall>i<Suc n. D k \<le> D i"
        using le False by (auto simp: less_Suc_eq)
      moreover have "k < Suc n" using k by simp
      ultimately show ?thesis using lt first by blast
    qed
  qed
qed

lemma find_closest_first_min:
  fixes step_x :: real and mouse_x :: int
  defines "D \<equiv> sample_dist step_x mouse_x"
  assumes "k < n" "D k < 9999" "\<forall>i<n. D k \<le> D i" "\<forall>i<k. D k < D i"
  shows "find_closest n step_x mouse_x = (int k, D k)"
proof -
  from find_closest_inv [of n step_x mouse_x, folded D_def]
  show ?thesis
  proof (elim disjE conjE exE)
    assume "\<forall>i<n. 9999 \<le> D i"
    with assms(2,3) show ?thesis by fastforce
  next
    fix j
    assume j: "j < n" and fc: "find_closest n step_x mouse_x = (int j, D j)"
      and le: "\<forall>i<n. D j \<le> D i" and first: "\<forall>i<j. D j < D i"
    have "j = k"
    proof (rule ccontr)
      assume "j \<noteq> k"
      then consider "j < k" | "k < j" by linarith
      then show False
      proof cases
        case 1
        with assms(5) have "D k < D j" by blast
        moreover from le assms(2) have "D j \<le> D k" by blast
        ultimately show False by simp
      next
        case 2
        with first have "D j < D k" by blast
        moreover from assms(4) j have "D k \<le> D j" by blast
        ultimately show False by simp
      qed
    qed
    with fc show ?thesis by simp
  qed
qed




lemma sample_x_0: "sample_x step_x 0 = 40"
  by (simp add: sample_x_def margin_x_def binary64_eval)



lemma sample_dist_at:
  "sample_x step_x k = real_of_int mouse_x \<Longrightarrow> sample_dist step_x mouse_x k = 0"
  by (simp add: sample_dist_def double_sub_def binary64_def)

lemma sample_dist_pos:
  "sample_x step_x i \<noteq> real_of_int mouse_x \<Longrightarrow> 0 < sample_dist step_x mouse_x i"
  by (simp add: sample_dist_def double_sub_def binary64_eq_0_iff)

lemma find_closest_exact:
  assumes "k < n" "sample_x step_x k = real_of_int mouse_x"
    "\<forall>i<k. sample_x step_x i \<noteq> real_of_int mouse_x"
  shows "find_closest n step_x mouse_x = (int k, 0)"
proof -
  have z: "sample_dist step_x mouse_x k = 0" using assms(2) by (rule sample_dist_at)
  have nn: "0 \<le> sample_dist step_x mouse_x i" for i by (simp add: sample_dist_def)
  have "find_closest n step_x mouse_x = (int k, sample_dist step_x mouse_x k)"
  proof (rule find_closest_first_min)
    show "k < n" by fact
    show "sample_dist step_x mouse_x k < 9999" by (simp add: z)
    show "\<forall>i<n. sample_dist step_x mouse_x k \<le> sample_dist step_x mouse_x i"
      by (simp add: z nn)
    show "\<forall>i<k. sample_dist step_x mouse_x k < sample_dist step_x mouse_x i"
      using assms(3) by (simp add: z sample_dist_pos)
  qed
  then show ?thesis by (simp add: z)
qed

lemma draw_chart_ge2:
  assumes "2 \<le> length (history d)"
  shows "draw_chart te area width height d =
     Inr (draw_plot te (history d) (plot_width width) (plot_height height)
            (max_value (history d)) (plot_step width (length (history d)))
          @ draw_value_label te area (history d) width '' MB/s''
          @ draw_value_label te area (history d) width '' Mbps''
          @ draw_overlay te area (history d) width (plot_height height)
              (max_value (history d)) (plot_step width (length (history d))))"
proof -
  from assms have "history d \<noteq> []" "length (history d) - 1 \<noteq> 0" by auto
  then show ?thesis
    by (simp add: draw_chart_def Let_def plot_width_def plot_height_def plot_step_def)
qed

lemma draw_chart_empty: "history d = [] \<Longrightarrow> draw_chart te area width height d = Inr []"
  by (simp add: draw_chart_def)










lemma foldl_max_replicate_0:
  "foldl (\<lambda>max_val val. if val > max_val then val else max_val) (0 :: int) (replicate n 0) = 0"
  by (induction n) simp_all

lemma max_value_replicate_0: "max_value (replicate n 0) = 100"
  by (simp add: max_value_def foldl_max_replicate_0)

lemma char_of_48: "char_of (48 :: nat) = CHR ''0''"
  by (simp add: char_of_def bit_iff_odd)

lemma decimal_0: "decimal 0 = ''0''"
  by (simp add: decimal.simps [of 0] char_of_48)

lemma initial_cpu_history:
  "history (get_live_data initial_globals ''CPU Load'') = replicate 24 0"
  by (simp add: get_live_data_fields initial_globals_def)

lemma initial_cpu_chart:
  assumes "is_live area" "live_type area = Some ''CPU Load''"
  shows "on_draw_chart sc te initial_globals area width height =
     Inr (draw_plot te (replicate 24 0) (plot_width width) (plot_height height) 100
            (plot_step width 24)
          @ draw_value_label te area (replicate 24 0) width '' MB/s''
          @ draw_value_label te area (replicate 24 0) width '' Mbps''
          @ draw_overlay te area (replicate 24 0) width (plot_height height) 100
              (plot_step width 24))"
proof -
  have "on_draw_chart sc te initial_globals area width height =
      draw_chart te area width height (get_live_data initial_globals ''CPU Load'')"
    using assms by (simp add: on_draw_chart_def)
  also have "\<dots> = Inr (draw_plot te (replicate 24 0) (plot_width width) (plot_height height) 100
            (plot_step width 24)
          @ draw_value_label te area (replicate 24 0) width '' MB/s''
          @ draw_value_label te area (replicate 24 0) width '' Mbps''
          @ draw_overlay te area (replicate 24 0) width (plot_height height) 100
              (plot_step width 24))"
    by (subst draw_chart_ge2) (simp_all add: initial_cpu_history max_value_replicate_0)
  finally show ?thesis .
qed

lemma hovered_first_sample:
  assumes "0 < double_div step_x 1.5" "0 < n"
  shows "hovered_index n step_x 40 = Some 0"
proof -
  have "find_closest n step_x 40 = (int 0, 0)"
    using assms(2) by (intro find_closest_exact) (simp_all add: sample_x_0)
  with assms(1) show ?thesis by (simp add: hovered_index_def)
qed

lemma initial_cpu_overlay:
  assumes "is_live area" "live_type area = Some ''CPU Load''" "is_hovering area"
    "hover_x area = 40" "0 < double_div step_x 1.5"
  shows "cairo_rectangle
           (fst (tooltip_box 40 (sample_y graph_h 100 0) 12 8 width))
           (fst (snd (tooltip_box 40 (sample_y graph_h 100 0) 12 8 width)))
           (fst (snd (snd (tooltip_box 40 (sample_y graph_h 100 0) 12 8 width))))
           (snd (snd (snd (tooltip_box 40 (sample_y graph_h 100 0) 12 8 width))))
         \<in> set (draw_overlay (\<lambda>w s t. (6 * real (length t), 8)) area (replicate 24 0) width
                  graph_h 100 step_x)"
proof -
  have hov: "hovered_index (length (replicate 24 (0 :: int))) step_x 40 = Some 0"
    using assms(5) by (intro hovered_first_sample) simp_all
  have unit: "tooltip_unit area = ''%''"
    using assms(1,2) by (simp add: tooltip_unit_def)
  have label: "snprintf 32 (format_d 0 @ ''%'') = ''0%''"
    by (simp add: snprintf_def format_d_def decimal_0)
  show ?thesis
    using assms(3,4) hov
    by (simp add: draw_overlay_def Let_def split_def unit sample_x_0 label)
qed












text \<open>
  Claim C9. When the series of a chart surface has no sample, \<^verbatim>\<open>on_draw_chart\<close> makes no
  cairo call and returns without error; so does the drawing part for any data whose
  history is empty.
\<close>

theorem empty_series_noop:
  "(chart_series sc g area = [] \<longrightarrow> on_draw_chart sc te g area width height = Inr []) \<and>
   (history d = [] \<longrightarrow> draw_chart te area width height d = Inr [])"
  by (auto simp: on_draw_chart_def chart_series_def draw_chart_empty split: option.splits)

text \<open>The theorem for the current-selection chart at program start, when nothing was
  selected yet, and for the drawing part on that empty selection.\<close>

theorem empty_series_noop_witness:
  "chart_series True initial_globals
     \<lparr>city_name = None, is_live = False, live_type = None, is_hovering = True, hover_x = 100\<rparr> = [] \<and>
   on_draw_chart True (\<lambda>w s t. (6 * real (length t), 8)) initial_globals
     \<lparr>city_name = None, is_live = False, live_type = None, is_hovering = True, hover_x = 100\<rparr>
     500 200 = Inr [] \<and>
   history (current_aqi_data initial_globals) = [] \<and>
   draw_chart (\<lambda>w s t. (6 * real (length t), 8))
     \<lparr>city_name = None, is_live = False, live_type = None, is_hovering = True, hover_x = 100\<rparr>
     500 200 (current_aqi_data initial_globals) = Inr []"
proof -
  note inst = empty_series_noop [of True initial_globals
      "\<lparr>city_name = None, is_live = False, live_type = None, is_hovering = True, hover_x = 100\<rparr>"
      "\<lambda>w s t. (6 * real (length t), 8)" 500 200 "current_aqi_data initial_globals"]
  have s: "chart_series True initial_globals
     \<lparr>city_name = None, is_live = False, live_type = None, is_hovering = True, hover_x = 100\<rparr> = []"
    by (simp add: chart_series_def initial_globals_def)
  have h: "history (current_aqi_data initial_globals) = []"
    by (simp add: initial_globals_def)
  from s have "on_draw_chart True (\<lambda>w s t. (6 * real (length t), 8)) initial_globals
     \<lparr>city_name = None, is_live = False, live_type = None, is_hovering = True, hover_x = 100\<rparr>
     500 200 = Inr []"
    by (rule inst [THEN conjunct1, THEN mp])
  moreover from h have "draw_chart (\<lambda>w s t. (6 * real (length t), 8))
     \<lparr>city_name = None, is_live = False, live_type = None, is_hovering = True, hover_x = 100\<rparr>
     500 200 (current_aqi_data initial_globals) = Inr []"
    by (rule inst [THEN conjunct2, THEN mp])
  ultimately show ?thesis using s h by (intro conjI)
qed






text \<open>
  Claim C7 does not hold of the code. The live CPU chart of the program's start (24
  samples 0), on a canvas 500 wide and 5 high, with the pointer at the first sample and a
  text measure of 6 per character and height 8: the marker is at \<open>y = -15\<close>, the box above
  it would start at \<open>-43\<close>, and the rule under ``Keep tooltip inside bounds'' moves it to
  \<open>y + 10 = -5\<close>. The tooltip box is drawn with its top at \<open>-5\<close>, above the top edge of
  the canvas.
\<close>

theorem tooltip_above_top_edge:
  "\<not> isl (on_draw_chart True (\<lambda>w s t. (6 * real (length t), 8)) initial_globals
      \<lparr>city_name = None, is_live = True, live_type = Some ''CPU Load'',
        is_hovering = True, hover_x = 40\<rparr> 500 5) \<and>
   cairo_rectangle 50 (- 5) 22 18 \<in>
     set (projr (on_draw_chart True (\<lambda>w s t. (6 * real (length t), 8)) initial_globals
      \<lparr>city_name = None, is_live = True, live_type = Some ''CPU Load'',
        is_hovering = True, hover_x = 40\<rparr> 500 5)) \<and>
   (- 5 :: real) < 0"
proof -
  define area where "area = \<lparr>city_name = None, is_live = True, live_type = Some ''CPU Load'',
        is_hovering = True, hover_x = 40\<rparr>"
  have a: "is_live area" "live_type area = Some ''CPU Load''" "is_hovering area" "hover_x area = 40"
    by (simp_all add: area_def)
  have gh: "plot_height 5 = - 35"
    by (simp add: plot_height_def margin_y_def binary64_eval)
  have tol: "0 < double_div (plot_step 500 24) 1.5"
    by (simp add: plot_step_def plot_width_def margin_x_def binary64_eval)
  have box: "tooltip_box 40 (sample_y (- 35) 100 0) 12 8 500 = (50, - 5, 22, 18)"
    by (simp add: tooltip_box_def sample_y_def margin_y_def binary64_eval)
  have "cairo_rectangle 50 (- 5) 22 18 \<in>
      set (draw_overlay (\<lambda>w s t. (6 * real (length t), 8)) area (replicate 24 0) 500
             (- 35) 100 (plot_step 500 24))"
    using initial_cpu_overlay [OF a tol, of "- 35" 500]
    by (simp add: box)
  then show ?thesis
    unfolding area_def [symmetric]
    by (simp add: initial_cpu_chart [OF a(1,2)] gh)
qed

end
